theory Spec2Isabelle
  imports Complex_Main
begin

section \<open>Data model\<close>

text \<open>
  The interface \<^verbatim>\<open>FundingRate\<close> of \<^verbatim>\<open>src/index.ts\<close>. The field
  \<open>fundingTime\<close> holds epoch milliseconds. Every record the program builds gets its
  \<open>fundingTime\<close> from \<^verbatim>\<open>new Date(..).getTime()\<close>, whose result is an integral
  time value of the range of \<^verbatim>\<open>Date\<close> (or \<^verbatim>\<open>NaN\<close> for a date that does not parse,
  which is outside this model); the field is modelled as an \<open>int\<close>. The field
  \<open>fundingRate\<close> is a JavaScript number that no operation below inspects.
\<close>

record FundingRate =
  exchange :: string
  pair :: string
  rawPair :: string
  fundingRate :: real
  fundingTime :: int
  fundingTimeStr :: string

text \<open>The descriptor \<^verbatim>\<open>Market\<close> of the package crypto-markets, with the fields the program reads.\<close>

record Market =
  market_id :: string
  market_pair :: string
  market_baseId :: string
  market_exchange :: string
  market_type :: string

text \<open>
  The program wraps every read of \<open>fundingTime\<close> in \<^verbatim>\<open>new Date(t).getTime()\<close>. For
  a number \<open>t\<close> that is an integral time value of the range of \<^verbatim>\<open>Date\<close>, as the
  times of the records are, this gives \<open>t\<close> back.
\<close>

definition getTime :: "int \<Rightarrow> int" where
  "getTime t = t"

section \<open>Merge, deduplicate, sort\<close>

text \<open>
  lodash's \<^verbatim>\<open>_.uniqBy(array, iteratee)\<close> walks the array from the left with a list
  \<open>seen\<close> of the keys met so far, and keeps an element when its key is not in \<open>seen\<close>
  yet: the first occurrence of each key survives, in the order of the array. (For long
  arrays lodash keeps \<open>seen\<close> in a hash set; the result is the same.)
\<close>

fun baseUniq :: "('a \<Rightarrow> 'k) \<Rightarrow> 'k list \<Rightarrow> 'a list \<Rightarrow> 'a list" where
  "baseUniq iteratee seen [] = []"
| "baseUniq iteratee seen (x # xs) =
     (if iteratee x \<in> set seen then baseUniq iteratee seen xs
      else x # baseUniq iteratee (iteratee x # seen) xs)"

definition uniqBy :: "'a list \<Rightarrow> ('a \<Rightarrow> 'k) \<Rightarrow> 'a list" where
  "uniqBy array iteratee = baseUniq iteratee [] array"

text \<open>
  lodash's \<^verbatim>\<open>_.sortBy(collection, iteratee)\<close> is a stable sort, ascending in the key;
  \<open>sort_key\<close> is the stable insertion sort of the list library.
\<close>

definition sortBy :: "'a list \<Rightarrow> ('a \<Rightarrow> 'k::linorder) \<Rightarrow> 'a list" where
  "sortBy collection iteratee = sort_key iteratee collection"

text \<open>
  Lines 321 to 324 of \<^verbatim>\<open>crawlFundingRates\<close>:
  \<^verbatim>\<open>_.sortBy(_.uniqBy(fundingRatesHistory.concat(fundingRates), 'fundingTime'), 'fundingTime')\<close>.
\<close>

definition allFundingRates :: "FundingRate list \<Rightarrow> FundingRate list \<Rightarrow> FundingRate list" where
  "allFundingRates fundingRatesHistory fundingRates =
     sortBy (uniqBy (fundingRatesHistory @ fundingRates) fundingTime) fundingTime"

section \<open>Errors, the stored checkpoint and the resume timestamp\<close>

text \<open>
  The exceptions the program can meet: a \<^verbatim>\<open>SyntaxError\<close> of \<^verbatim>\<open>JSON.parse\<close>, a
  \<^verbatim>\<open>TypeError\<close> on reading a property of \<^verbatim>\<open>undefined\<close>, an \<^verbatim>\<open>AssertionError\<close> of
  \<^verbatim>\<open>assert.strictEqual\<close>, the \<^verbatim>\<open>Error\<close> thrown for an unknown exchange, and
  any error of a request (network failure, bad status), with its message.
\<close>

datatype error =
  SyntaxError
| TypeError
| AssertionError
| UnknownExchange string
| RequestError string

text \<open>
  The content of the file \<^verbatim>\<open>data/<exchange>/<pair>.json\<close>: either text that
  \<^verbatim>\<open>JSON.parse\<close> rejects, or the text that \<^verbatim>\<open>JSON.stringify(records, null, 2)\<close>
  followed by a newline produces, which parses back to the records. A file that does
  not exist is \<open>None\<close>.
\<close>

datatype blob = Malformed string | Json "FundingRate list"

fun JSON_parse :: "blob \<Rightarrow> error + FundingRate list" where
  "JSON_parse (Malformed text) = Inl SyntaxError"
| "JSON_parse (Json records) = Inr records"

definition JSON_stringify :: "FundingRate list \<Rightarrow> blob" where
  "JSON_stringify records = Json records"

text \<open>What the program prints with \<^verbatim>\<open>console.error\<close>, and the 5 second timer it awaits.\<close>

datatype console = Text string | ErrorObject error | ErrorMessage error

datatype event = ConsoleError console | SetTimeout nat

definition fundingRatesFile :: "Market \<Rightarrow> string" where
  "fundingRatesFile market =
     ''data/'' @ market_exchange market @ ''/'' @ market_pair market @ ''.json''"

text \<open>
  Lines 265 to 272: when the file exists, a first \<^verbatim>\<open>JSON.parse\<close> inside
  \<^verbatim>\<open>try\<close>, whose value is dropped; the \<^verbatim>\<open>catch\<close> prints the file name and the error.
\<close>

definition parseCheck :: "Market \<Rightarrow> blob option \<Rightarrow> event list" where
  "parseCheck market file =
     (case file of
        None \<Rightarrow> []
      | Some content \<Rightarrow>
          (case JSON_parse content of
             Inl err \<Rightarrow> [ConsoleError (Text (fundingRatesFile market)), ConsoleError (ErrorObject err)]
           | Inr _ \<Rightarrow> []))"

text \<open>
  Lines 273 to 275: the history is the parsed file when it exists, else the empty
  array. This second \<^verbatim>\<open>JSON.parse\<close> is outside any \<^verbatim>\<open>try\<close>.
\<close>

definition fundingRatesHistory :: "blob option \<Rightarrow> error + FundingRate list" where
  "fundingRatesHistory file =
     (case file of None \<Rightarrow> Inr [] | Some content \<Rightarrow> JSON_parse content)"

text \<open>
  Reading \<^verbatim>\<open>array[i]\<close>: the element when \<open>0 \<le> i < length\<close>, else \<^verbatim>\<open>undefined\<close>
  (\<open>None\<close>).
\<close>

definition at_index :: "'a list \<Rightarrow> int \<Rightarrow> 'a option" where
  "at_index array i =
     (if 0 \<le> i \<and> i < int (length array) then Some (array ! nat i) else None)"

text \<open>
  Lines 276 to 284. Reading \<^verbatim>\<open>.fundingTime\<close> of \<^verbatim>\<open>undefined\<close> throws a
  \<^verbatim>\<open>TypeError\<close>.
\<close>

definition startTime :: "Market \<Rightarrow> FundingRate list \<Rightarrow> error + int" where
  "startTime market history =
     (if length history \<le> 0 then Inr 1568102400000
      else
        (case at_index history
                (int (length history) - (if market_exchange market = ''OKEx'' then 2 else 1)) of
           None \<Rightarrow> Inl TypeError
         | Some item \<Rightarrow> Inr (getTime (fundingTime item) + 1000)))"

section \<open>The exchanges' replies and the crawl functions\<close>

text \<open>
  The network is outside the program. One call of a crawl function sees the replies of
  the exchange in the order of its requests: \<open>replies\<close> for the endpoints that return a
  list of records, \<open>current\<close> for OKEx's \<^verbatim>\<open>funding_time\<close> endpoint, asked at most
  once in a call. A reply is what the request, the status assertions and the
  normalisation to \<^verbatim>\<open>FundingRate\<close> give: the records, or the error thrown. When the
  replies run out the call is still waiting: it has not returned (\<open>None\<close>).
\<close>

record net =
  replies :: "(error + FundingRate list) list"
  current :: "error + FundingRate"

text \<open>
  The five functions that make one request (\<^verbatim>\<open>crawlBinanceFundingRateOneshot\<close>,
  \<^verbatim>\<open>crawlHuobiFundingRateOneshot\<close>, \<^verbatim>\<open>crawlBitMEXFundingRateOneshot\<close>,
  \<^verbatim>\<open>crawlOKExFundingRateHistory\<close>, \<^verbatim>\<open>crawlOKExFundingRateCurrent\<close>) have one shape:
  assert that the market is a swap market, then request and normalise.
\<close>

definition oneshot :: "Market \<Rightarrow> error + 'a \<Rightarrow> error + 'a" where
  "oneshot market reply =
     (if market_type market \<noteq> ''Swap'' then Inl AssertionError else reply)"

text \<open>
  \<^verbatim>\<open>result.sort((x, y) => new Date(x.fundingTime).getTime() - new Date(y.fundingTime).getTime())\<close>:
  a stable sort, ascending in the time.
\<close>

definition sortByTime :: "FundingRate list \<Rightarrow> FundingRate list" where
  "sortByTime result = sort_key (\<lambda>x. getTime (fundingTime x)) result"

text \<open>
  A crawl function returns the records or the error, with the cursors of the requests
  it made, in order.
\<close>

type_synonym crawled = "((error + FundingRate list) \<times> int list) option"

text \<open>
  The \<^verbatim>\<open>do ... while\<close> loop of \<^verbatim>\<open>crawlBinanceFundingRate\<close> (page limit 1000, cursor
  advanced by 1000 ms) and of \<^verbatim>\<open>crawlBitMEXFundingRate\<close> (page limit 500, cursor
  advanced by 3600000 ms); the two bodies differ in these constants only. \<open>result\<close> is
  the array being filled, \<open>cursors\<close> the start times of the requests so far. An error
  of a request leaves the function at once, as the rejected \<^verbatim>\<open>await\<close> does.
\<close>

fun cursorLoop ::
  "nat \<Rightarrow> int \<Rightarrow> Market \<Rightarrow> (error + FundingRate list) list \<Rightarrow> int \<Rightarrow>
   FundingRate list \<Rightarrow> int list \<Rightarrow> crawled" where
  "cursorLoop limit step market [] start result cursors = None"
| "cursorLoop limit step market (reply # rest) start result cursors =
     (case oneshot market reply of
        Inl err \<Rightarrow> Some (Inl err, cursors @ [start])
      | Inr fundingRates \<Rightarrow>
          (let result' = (if length fundingRates > 0 then result @ fundingRates else result);
               start' = (if length fundingRates > 0
                         then getTime (fundingTime (last fundingRates)) + step else start)
           in if length fundingRates \<ge> limit
              then cursorLoop limit step market rest start' result' (cursors @ [start])
              else Some (Inr result', cursors @ [start])))"

definition sorted_result :: "crawled \<Rightarrow> crawled" where
  "sorted_result c =
     (case c of
        None \<Rightarrow> None
      | Some (Inl err, cursors) \<Rightarrow> Some (Inl err, cursors)
      | Some (Inr result, cursors) \<Rightarrow> Some (Inr (sortByTime result), cursors))"

definition crawlBinanceFundingRate :: "Market \<Rightarrow> net \<Rightarrow> int \<Rightarrow> crawled" where
  "crawlBinanceFundingRate market n start =
     sorted_result (cursorLoop 1000 1000 market (replies n) start [] [])"

definition crawlBitMEXFundingRate :: "Market \<Rightarrow> net \<Rightarrow> int \<Rightarrow> crawled" where
  "crawlBitMEXFundingRate market n start =
     sorted_result (cursorLoop 500 3600000 market (replies n) start [] [])"

text \<open>
  The loop of \<^verbatim>\<open>crawlHuobiFundingRate\<close>: the page index goes up by one at each
  request; the page is filtered to the records later than \<open>lastFundingTime\<close> before it is
  pushed and before its length is compared with 50.
\<close>

fun huobiLoop ::
  "Market \<Rightarrow> (error + FundingRate list) list \<Rightarrow> int \<Rightarrow> int \<Rightarrow>
   FundingRate list \<Rightarrow> int list \<Rightarrow> crawled" where
  "huobiLoop market [] lastFundingTime pageIndex result cursors = None"
| "huobiLoop market (reply # rest) lastFundingTime pageIndex result cursors =
     (case oneshot market reply of
        Inl err \<Rightarrow> Some (Inl err, cursors @ [pageIndex])
      | Inr page \<Rightarrow>
          (let fundingRates = filter (\<lambda>rate. getTime (fundingTime rate) > lastFundingTime) page;
               result' = (if length fundingRates > 0 then result @ fundingRates else result)
           in if length fundingRates \<ge> 50
              then huobiLoop market rest lastFundingTime (pageIndex + 1) result'
                     (cursors @ [pageIndex])
              else Some (Inr result', cursors @ [pageIndex])))"

definition crawlHuobiFundingRate :: "Market \<Rightarrow> net \<Rightarrow> int \<Rightarrow> crawled" where
  "crawlHuobiFundingRate market n lastFundingTime =
     sorted_result (huobiLoop market (replies n) lastFundingTime 1 [] [])"

text \<open>
  \<^verbatim>\<open>crawlOKExFundingRate\<close>: the history endpoint, then the current-rate endpoint, the
  two results concatenated, filtered to \<open>fundingTime \<ge> startTime\<close> and sorted.
\<close>

definition crawlOKExFundingRate :: "Market \<Rightarrow> net \<Rightarrow> int \<Rightarrow> crawled" where
  "crawlOKExFundingRate market n start =
     (case replies n of
        [] \<Rightarrow> None
      | reply # _ \<Rightarrow>
          (case oneshot market reply of
             Inl err \<Rightarrow> Some (Inl err, [])
           | Inr fundingRateHistory \<Rightarrow>
               (case oneshot market (current n) of
                  Inl err \<Rightarrow> Some (Inl err, [])
                | Inr fundingRateCurrent \<Rightarrow>
                    Some (Inr (sortByTime
                                 (filter (\<lambda>x. getTime (fundingTime x) \<ge> start)
                                    (fundingRateHistory @ [fundingRateCurrent]))), []))))"

section \<open>One market: retry, merge, persist\<close>

text \<open>The \<^verbatim>\<open>switch\<close> on \<^verbatim>\<open>market.exchange\<close>; \<open>None\<close> is the \<^verbatim>\<open>default\<close> branch.\<close>

definition crawlFunc :: "string \<Rightarrow> (Market \<Rightarrow> net \<Rightarrow> int \<Rightarrow> crawled) option" where
  "crawlFunc ex =
     (if ex = ''Binance'' then Some crawlBinanceFundingRate
      else if ex = ''BitMEX'' then Some crawlBitMEXFundingRate
      else if ex = ''Huobi'' then Some crawlHuobiFundingRate
      else if ex = ''OKEx'' then Some crawlOKExFundingRate
      else None)"

text \<open>
  Lines 305 to 319: \<^verbatim>\<open>while (!succeeded)\<close>. Each turn calls the crawl function anew,
  with the same market and start time, against the replies of that attempt. A failed
  attempt prints the exchange and pair and the error's message, waits 5000 ms and goes
  round again; there is no other exit than a success. When the attempts given run out,
  or one never returns, the loop has not ended (\<open>None\<close>); what it printed is returned
  in both cases.
\<close>

fun retryLoop ::
  "(net \<Rightarrow> crawled) \<Rightarrow> Market \<Rightarrow> net list \<Rightarrow> event list \<Rightarrow>
   FundingRate list option \<times> event list" where
  "retryLoop crawl market [] trace = (None, trace)"
| "retryLoop crawl market (attempt # later) trace =
     (case crawl attempt of
        None \<Rightarrow> (None, trace)
      | Some (Inl tmp, _) \<Rightarrow>
          retryLoop crawl market later
            (trace @ [ConsoleError (Text (market_exchange market @ ''-'' @ market_pair market)),
                      ConsoleError (ErrorMessage tmp),
                      SetTimeout 5000])
      | Some (Inr tmp, _) \<Rightarrow> (Some tmp, trace))"

text \<open>
  The outcome of \<^verbatim>\<open>crawlFundingRates\<close> for one market: how its promise settles
  (\<open>None\<close>: not settled, \<open>Inl\<close>: rejected, \<open>Inr\<close>: fulfilled), the file afterwards, and
  what was printed and awaited.
\<close>

record outcome =
  settled :: "(error + unit) option"
  persisted :: "blob option"
  trace :: "event list"

definition crawlFundingRates :: "Market \<Rightarrow> blob option \<Rightarrow> net list \<Rightarrow> outcome" where
  "crawlFundingRates market stored attempts =
     (if market_type market \<noteq> ''Swap''
      then \<lparr>settled = Some (Inl AssertionError), persisted = stored, trace = []\<rparr>
      else
        (let checked = parseCheck market stored in
         case fundingRatesHistory stored of
           Inl err \<Rightarrow> \<lparr>settled = Some (Inl err), persisted = stored, trace = checked\<rparr>
         | Inr history \<Rightarrow>
             (case startTime market history of
                Inl err \<Rightarrow> \<lparr>settled = Some (Inl err), persisted = stored, trace = checked\<rparr>
              | Inr start \<Rightarrow>
                  (case crawlFunc (market_exchange market) of
                     None \<Rightarrow>
                       \<lparr>settled = Some (Inl (UnknownExchange (market_exchange market))),
                        persisted = stored, trace = checked\<rparr>
                   | Some crawl \<Rightarrow>
                       (case retryLoop (\<lambda>attempt. crawl market attempt start) market
                               attempts checked of
                          (None, printed) \<Rightarrow>
                            \<lparr>settled = None, persisted = stored, trace = printed\<rparr>
                        | (Some fundingRates, printed) \<Rightarrow>
                            \<lparr>settled = Some (Inr ()),
                             persisted = Some (JSON_stringify (allFundingRates history fundingRates)),
                             trace = printed\<rparr>)))))"

section \<open>Sample data\<close>

text \<open>A swap market of the given exchange, and a record of it at the given time.\<close>

definition sampleMarket :: "string \<Rightarrow> Market" where
  "sampleMarket ex =
     \<lparr>market_id = ''BTCUSDT'', market_pair = ''BTC_USDT'', market_baseId = ''BTC'',
      market_exchange = ex, market_type = ''Swap''\<rparr>"

definition sampleRate :: "string \<Rightarrow> int \<Rightarrow> FundingRate" where
  "sampleRate ex t =
     \<lparr>exchange = ex, pair = ''BTC_USDT'', rawPair = ''BTCUSDT'', fundingRate = 1 / 10000,
      fundingTime = t, fundingTimeStr = ''''\<rparr>"

section \<open>Properties of the merge step\<close>

lemma baseUniq_keys:
  "f ` set (baseUniq f seen xs) = f ` set xs - set seen"
  by (induction xs arbitrary: seen) auto

lemma baseUniq_distinct:
  "distinct (map f (baseUniq f seen xs))"
proof (induction xs arbitrary: seen)
  case Nil
  show ?case by simp
next
  case (Cons x xs)
  have "f x \<notin> f ` set (baseUniq f (f x # seen) xs)"
    unfolding baseUniq_keys by simp
  with Cons show ?case by simp
qed

lemma baseUniq_find:
  "find (\<lambda>x. f x = k) (baseUniq f seen xs) =
     (if k \<in> set seen then None else find (\<lambda>x. f x = k) xs)"
proof (induction xs arbitrary: seen)
  case Nil
  show ?case by simp
next
  case (Cons x xs)
  show ?case
  proof (cases "f x \<in> set seen")
    case True
    with Cons show ?thesis by auto
  next
    case False
    with Cons show ?thesis by auto
  qed
qed

lemma baseUniq_all_seen:
  "f ` set ys \<subseteq> set seen \<Longrightarrow> baseUniq f seen ys = []"
  by (induction ys) auto

lemma baseUniq_absorb:
  "distinct (map f xs) \<Longrightarrow> f ` set xs \<inter> set seen = {} \<Longrightarrow>
   f ` set ys \<subseteq> set seen \<union> f ` set xs \<Longrightarrow> baseUniq f seen (xs @ ys) = xs"
proof (induction xs arbitrary: seen)
  case Nil
  then show ?case by (simp add: baseUniq_all_seen)
next
  case (Cons x xs)
  from Cons.prems have notseen: "f x \<notin> set seen" by auto
  have "baseUniq f (f x # seen) (xs @ ys) = xs"
  proof (rule Cons.IH)
    show "distinct (map f xs)" using Cons.prems(1) by simp
    show "f ` set xs \<inter> set (f x # seen) = {}" using Cons.prems(1,2) by auto
    show "f ` set ys \<subseteq> set (f x # seen) \<union> f ` set xs" using Cons.prems(3) by auto
  qed
  with notseen show ?case by simp
qed

lemma find_key_sort_key:
  "find (\<lambda>x. f x = k) (sort_key f xs) = find (\<lambda>x. f x = k) xs"
proof -
  have "find (\<lambda>x. f x = k) zs = (case filter (\<lambda>x. f x = k) zs of [] \<Rightarrow> None | y # _ \<Rightarrow> Some y)"
    for zs :: "'a list"
    by (induction zs) auto
  then show ?thesis by (simp add: sort_key_stable)
qed

lemma find_key_append:
  "find P (xs @ ys) = (case find P xs of Some r \<Rightarrow> Some r | None \<Rightarrow> find P ys)"
  by (induction xs) auto

lemma distinct_map_sort_key:
  "distinct (map f (sort_key f xs)) = distinct (map f xs)"
  by (induction xs) (auto simp: distinct_insort_key)

lemma allFundingRates_sorted:
  "sorted (map fundingTime (allFundingRates h f))"
  by (simp add: allFundingRates_def sortBy_def)

lemma allFundingRates_distinct:
  "distinct (map fundingTime (allFundingRates h f))"
  by (simp add: allFundingRates_def sortBy_def uniqBy_def distinct_map_sort_key baseUniq_distinct)

lemma allFundingRates_find:
  "find (\<lambda>x. fundingTime x = t) (allFundingRates h f) =
     (case find (\<lambda>x. fundingTime x = t) h of
        Some r \<Rightarrow> Some r
      | None \<Rightarrow> find (\<lambda>x. fundingTime x = t) f)"
  by (simp add: allFundingRates_def sortBy_def uniqBy_def find_key_sort_key baseUniq_find
      find_key_append)

lemma allFundingRates_keys:
  "fundingTime ` set (allFundingRates h f) = fundingTime ` (set h \<union> set f)"
  by (simp add: allFundingRates_def sortBy_def uniqBy_def baseUniq_keys)

text \<open>
  Claim C1. For every history \<open>h\<close> and fresh batch \<open>f\<close>, the merge step returns a
  sequence that is sorted ascending by \<open>fundingTime\<close> and holds no two records with the
  same \<open>fundingTime\<close>; and for every time \<open>t\<close> the record it holds at \<open>t\<close> is the first
  record of \<open>h\<close> at \<open>t\<close> when \<open>h\<close> has one, and otherwise the first record of \<open>f\<close> at
  \<open>t\<close> (none when neither has one): the history's record wins over a fetched one.
\<close>

theorem C1_merge_sorted_unique_history_wins:
  "sorted (map fundingTime (allFundingRates h f)) \<and>
   distinct (map fundingTime (allFundingRates h f)) \<and>
   find (\<lambda>x. fundingTime x = t) (allFundingRates h f) =
     (case find (\<lambda>x. fundingTime x = t) h of
        Some r \<Rightarrow> Some r
      | None \<Rightarrow> find (\<lambda>x. fundingTime x = t) f)"
  using allFundingRates_sorted allFundingRates_distinct allFundingRates_find by blast

text \<open>
  Claim C2. Merging the merged result with the same fresh batch again changes nothing:
  \<open>merge (merge h f) f = merge h f\<close>.
\<close>

theorem C2_merge_idempotent:
  "allFundingRates (allFundingRates h f) f = allFundingRates h f"
proof -
  let ?m = "allFundingRates h f"
  have "fundingTime ` set f \<subseteq> set [] \<union> fundingTime ` set ?m"
    unfolding allFundingRates_keys by auto
  then have "baseUniq fundingTime [] (?m @ f) = ?m"
    by (intro baseUniq_absorb allFundingRates_distinct) simp_all
  then have "allFundingRates ?m f = sort_key fundingTime ?m"
    by (simp add: allFundingRates_def[of ?m f] sortBy_def uniqBy_def)
  also have "\<dots> = ?m"
    by (rule sort_key_id_if_sorted) (rule allFundingRates_sorted)
  finally show ?thesis .
qed

section \<open>The resume timestamp\<close>

lemma at_index_last:
  "h \<noteq> [] \<Longrightarrow> at_index h (int (length h) - 1) = Some (last h)"
  by (cases h rule: rev_cases) (auto simp: at_index_def nth_append)

lemma at_index_second_to_last:
  "at_index (h @ [r1, r2]) (int (length (h @ [r1, r2])) - 2) = Some r1"
  by (simp add: at_index_def nth_append)

text \<open>
  Claim C3, as stated: for a non-empty persisted sequence of a market that is not on
  OKEx, whose last record has time \<open>T\<close>, the resume timestamp is \<open>T + 1\<close>. It fails:
  for a Binance history whose only record is at 1000 the program computes 2000, not
  1001.
\<close>

theorem C3_resume_plus_one_counterexample:
  "startTime (sampleMarket ''Binance'') [sampleRate ''Binance'' 1000] = Inr 2000 \<and>
   startTime (sampleMarket ''Binance'') [sampleRate ''Binance'' 1000]
     \<noteq> Inr (fundingTime (sampleRate ''Binance'' 1000) + 1)"
  by (simp add: startTime_def at_index_def sampleMarket_def sampleRate_def getTime_def)

text \<open>
  Claim C3, amended: for a non-empty persisted sequence of a market that is not on OKEx,
  whose last record has time \<open>T\<close>, the resume timestamp is \<open>T + 1000\<close> (one second, in
  milliseconds).
\<close>

theorem C3_resume_last_plus_1000:
  "h \<noteq> [] \<Longrightarrow> market_exchange market \<noteq> ''OKEx'' \<Longrightarrow>
   startTime market h = Inr (fundingTime (last h) + 1000)"
  by (simp add: startTime_def at_index_last getTime_def)

theorem C3_resume_last_plus_1000_witness:
  "[sampleRate ''Binance'' 1000] \<noteq> [] \<and>
   market_exchange (sampleMarket ''Binance'') \<noteq> ''OKEx'' \<and>
   startTime (sampleMarket ''Binance'') [sampleRate ''Binance'' 1000] = Inr 2000"
  using C3_resume_last_plus_1000 [of "[sampleRate ''Binance'' 1000]" "sampleMarket ''Binance''"]
  by (simp add: sampleMarket_def sampleRate_def)

text \<open>
  Claim C4, as stated: for an OKEx sequence whose last two records have times
  \<open>T1 < T2\<close>, the resume timestamp is \<open>T1 + 1\<close>. It fails: with the last two records
  at 1000 and 5000 the program computes 2000, not 1001.
\<close>

theorem C4_okex_resume_plus_one_counterexample:
  "fundingTime (sampleRate ''OKEx'' 1000) < fundingTime (sampleRate ''OKEx'' 5000) \<and>
   startTime (sampleMarket ''OKEx'') [sampleRate ''OKEx'' 1000, sampleRate ''OKEx'' 5000]
     = Inr 2000 \<and>
   startTime (sampleMarket ''OKEx'') [sampleRate ''OKEx'' 1000, sampleRate ''OKEx'' 5000]
     \<noteq> Inr (fundingTime (sampleRate ''OKEx'' 1000) + 1)"
  by (simp add: startTime_def at_index_def sampleMarket_def sampleRate_def getTime_def)

text \<open>
  Claim C4, amended: for an OKEx sequence whose last two records have times
  \<open>T1 < T2\<close>, the resume timestamp is \<open>T1 + 1000\<close>: the final stored record is left
  out and the resume point comes from the second-to-last record.
\<close>

theorem C4_okex_resume_second_to_last_plus_1000:
  "market_exchange market = ''OKEx'' \<Longrightarrow> fundingTime r1 < fundingTime r2 \<Longrightarrow>
   startTime market (h @ [r1, r2]) = Inr (fundingTime r1 + 1000)"
  using at_index_second_to_last [of h r1 r2] by (simp add: startTime_def getTime_def)

theorem C4_okex_resume_second_to_last_plus_1000_witness:
  "market_exchange (sampleMarket ''OKEx'') = ''OKEx'' \<and>
   fundingTime (sampleRate ''OKEx'' 1000) < fundingTime (sampleRate ''OKEx'' 5000) \<and>
   startTime (sampleMarket ''OKEx'')
     ([sampleRate ''OKEx'' 500] @ [sampleRate ''OKEx'' 1000, sampleRate ''OKEx'' 5000])
     = Inr 2000"
  using C4_okex_resume_second_to_last_plus_1000
    [of "sampleMarket ''OKEx''" "sampleRate ''OKEx'' 1000" "sampleRate ''OKEx'' 5000"
        "[sampleRate ''OKEx'' 500]"]
  by (simp add: sampleMarket_def sampleRate_def)

text \<open>
  Claim C10. For an OKEx market whose persisted sequence holds exactly one record, the
  resume-timestamp computation reads the history at index \<open>length - 2 = -1\<close>, which is
  undefined, so reading its \<open>fundingTime\<close> throws: no resume timestamp is produced and
  the crawl of that market fails (its promise is rejected with the \<^verbatim>\<open>TypeError\<close>, the
  file is left as it was, nothing is fetched).
\<close>

theorem C10_okex_single_record_throws:
  "market_exchange market = ''OKEx'' \<Longrightarrow> market_type market = ''Swap'' \<Longrightarrow>
   at_index [r] (int (length [r]) - 2) = None \<and>
   startTime market [r] = Inl TypeError \<and>
   crawlFundingRates market (Some (Json [r])) attempts =
     \<lparr>settled = Some (Inl TypeError), persisted = Some (Json [r]), trace = []\<rparr>"
  by (simp add: crawlFundingRates_def startTime_def at_index_def fundingRatesHistory_def
      parseCheck_def)

theorem C10_okex_single_record_throws_witness:
  "market_exchange (sampleMarket ''OKEx'') = ''OKEx'' \<and>
   market_type (sampleMarket ''OKEx'') = ''Swap'' \<and>
   startTime (sampleMarket ''OKEx'') [sampleRate ''OKEx'' 1000] = Inl TypeError \<and>
   settled (crawlFundingRates (sampleMarket ''OKEx'') (Some (Json [sampleRate ''OKEx'' 1000])) [])
     = Some (Inl TypeError)"
  using C10_okex_single_record_throws [of "sampleMarket ''OKEx''" "sampleRate ''OKEx'' 1000" "[]"]
  by (simp add: sampleMarket_def)

section \<open>Reading the checkpoint\<close>

text \<open>
  Claim C5, as stated: when the stored content fails to parse, the read returns the
  empty history after logging, raises nothing, and the crawl goes on as if there were
  no history. It fails: with the stored text \<open>{\<close> the history is not the empty
  sequence but the parse error, and the market's run is rejected with it, although the
  exchange would have answered; with no file at all the same run is fulfilled.
\<close>

theorem C5_parse_failure_counterexample:
  "fundingRatesHistory (Some (Malformed ''{'')) = Inl SyntaxError \<and>
   settled (crawlFundingRates (sampleMarket ''Binance'') (Some (Malformed ''{''))
     [\<lparr>replies = [Inr [sampleRate ''Binance'' 3000]],
       current = Inl (RequestError ''unused'')\<rparr>]) = Some (Inl SyntaxError) \<and>
   settled (crawlFundingRates (sampleMarket ''Binance'') None
     [\<lparr>replies = [Inr [sampleRate ''Binance'' 3000]],
       current = Inl (RequestError ''unused'')\<rparr>]) = Some (Inr ())"
  by (simp add: sampleMarket_def sampleRate_def crawlFunc_def fundingRatesHistory_def
      startTime_def at_index_def parseCheck_def getTime_def crawlBinanceFundingRate_def
      oneshot_def sorted_result_def sortByTime_def crawlFundingRates_def JSON_stringify_def
      allFundingRates_def sortBy_def uniqBy_def)

text \<open>
  Claim C5, amended: when the stored content of a swap market fails to parse, the
  program prints the file name and the parse error, and then its second parse of the
  file, which no handler guards, throws the same error: the market's run is rejected
  with it, whatever the exchange would reply, and the stored content is left as it
  was.
\<close>

theorem C5_parse_failure_logged_then_rejected:
  "market_type market = ''Swap'' \<Longrightarrow>
   crawlFundingRates market (Some (Malformed text)) attempts =
     \<lparr>settled = Some (Inl SyntaxError), persisted = Some (Malformed text),
      trace = [ConsoleError (Text (fundingRatesFile market)),
               ConsoleError (ErrorObject SyntaxError)]\<rparr>"
  by (simp add: crawlFundingRates_def fundingRatesHistory_def parseCheck_def)

theorem C5_parse_failure_logged_then_rejected_witness:
  "market_type (sampleMarket ''Huobi'') = ''Swap'' \<and>
   crawlFundingRates (sampleMarket ''Huobi'') (Some (Malformed ''[{'')) [] =
     \<lparr>settled = Some (Inl SyntaxError), persisted = Some (Malformed ''[{''),
      trace = [ConsoleError (Text ''data/Huobi/BTC_USDT.json''),
               ConsoleError (ErrorObject SyntaxError)]\<rparr>"
  using C5_parse_failure_logged_then_rejected [of "sampleMarket ''Huobi''" "''[{''" "[]"]
  by (simp add: sampleMarket_def fundingRatesFile_def)

section \<open>The retry loop\<close>

lemma retryLoop_fail_then_succeed:
  "map (\<lambda>a. map_option fst (crawl a)) failing = map (\<lambda>e. Some (Inl e)) errs \<Longrightarrow>
   map_option fst (crawl succeeding) = Some (Inr fundingRates) \<Longrightarrow>
   retryLoop crawl market (failing @ succeeding # later) printed =
     (Some fundingRates,
      printed @
      concat (map (\<lambda>e. [ConsoleError (Text (market_exchange market @ ''-'' @ market_pair market)),
                         ConsoleError (ErrorMessage e), SetTimeout 5000]) errs))"
proof (induction failing arbitrary: errs printed)
  case Nil
  then show ?case by (auto split: option.splits sum.splits prod.splits)
next
  case (Cons a failing)
  from Cons.prems(1) obtain e errs' where errs: "errs = e # errs'"
    and a: "map_option fst (crawl a) = Some (Inl e)"
    and rest: "map (\<lambda>a. map_option fst (crawl a)) failing = map (\<lambda>e. Some (Inl e)) errs'"
    by (cases errs) auto
  from a obtain cs where ca: "crawl a = Some (Inl e, cs)" by (cases "crawl a") auto
  show ?case
    using Cons.IH [OF rest Cons.prems(2)] by (simp add: ca errs)
qed

text \<open>However many attempts fail, the loop does not end on a failure.\<close>

lemma retryLoop_all_fail:
  "map (\<lambda>a. map_option fst (crawl a)) failing = map (\<lambda>e. Some (Inl e)) errs \<Longrightarrow>
   fst (retryLoop crawl market failing printed) = None"
proof (induction failing arbitrary: errs printed)
  case Nil
  then show ?case by simp
next
  case (Cons a failing)
  from Cons.prems(1) obtain e errs' where errs: "errs = e # errs'"
    and a: "map_option fst (crawl a) = Some (Inl e)"
    and rest: "map (\<lambda>a. map_option fst (crawl a)) failing = map (\<lambda>e. Some (Inl e)) errs'"
    by (cases errs) auto
  from a obtain cs where ca: "crawl a = Some (Inl e, cs)" by (cases "crawl a") auto
  show ?case
    using Cons.IH [OF rest] by (simp add: ca)
qed

lemma parseCheck_parsed:
  "fundingRatesHistory stored = Inr history \<Longrightarrow> parseCheck market stored = []"
  by (auto simp: fundingRatesHistory_def parseCheck_def split: option.splits)

text \<open>
  Claim C9. Take a swap market of a known exchange whose stored history parses and
  gives a start time, and let its attempts fail any finite number of times, with the
  errors \<open>errs\<close>, and then succeed with the records \<open>fundingRates\<close>. Then the run is
  fulfilled (no error reaches the caller); for each failure, in order, it printed the
  exchange and pair and the error's message and then waited 5000 ms before the next
  attempt; and the file holds the merge of the history with the records of the
  successful attempt, and nothing of the failed ones.
\<close>

theorem C9_retry_until_success:
  assumes "market_type market = ''Swap''"
    and "crawlFunc (market_exchange market) = Some crawl"
    and "fundingRatesHistory stored = Inr history"
    and "startTime market history = Inr start"
    and "map (\<lambda>a. map_option fst (crawl market a start)) failing = map (\<lambda>e. Some (Inl e)) errs"
    and "map_option fst (crawl market succeeding start) = Some (Inr fundingRates)"
  shows "crawlFundingRates market stored (failing @ succeeding # later) =
     \<lparr>settled = Some (Inr ()),
      persisted = Some (JSON_stringify (allFundingRates history fundingRates)),
      trace =
        concat (map (\<lambda>e. [ConsoleError (Text (market_exchange market @ ''-'' @ market_pair market)),
                           ConsoleError (ErrorMessage e), SetTimeout 5000]) errs)\<rparr>"
  using retryLoop_fail_then_succeed
    [of "\<lambda>a. crawl market a start" failing errs succeeding fundingRates market later "[]",
      OF assms(5,6)]
  by (simp add: crawlFundingRates_def assms(1-4) parseCheck_parsed [OF assms(3)])

theorem C9_retry_until_success_witness:
  "crawlFundingRates (sampleMarket ''OKEx'') None
     [\<lparr>replies = [Inl (RequestError ''timeout'')],
       current = Inr (sampleRate ''OKEx'' 1568160000000)\<rparr>,
      \<lparr>replies = [Inr [sampleRate ''OKEx'' 1568131200000]],
       current = Inl AssertionError\<rparr>,
      \<lparr>replies = [Inr [sampleRate ''OKEx'' 1568102400000]],
       current = Inr (sampleRate ''OKEx'' 1568160000000)\<rparr>] =
     \<lparr>settled = Some (Inr ()),
      persisted = Some (Json [sampleRate ''OKEx'' 1568102400000,
                              sampleRate ''OKEx'' 1568160000000]),
      trace = [ConsoleError (Text ''OKEx-BTC_USDT''),
               ConsoleError (ErrorMessage (RequestError ''timeout'')), SetTimeout 5000,
               ConsoleError (Text ''OKEx-BTC_USDT''),
               ConsoleError (ErrorMessage AssertionError), SetTimeout 5000]\<rparr>"
  using C9_retry_until_success
    [of "sampleMarket ''OKEx''" crawlOKExFundingRate None "[]" 1568102400000
      "[\<lparr>replies = [Inl (RequestError ''timeout'')],
         current = Inr (sampleRate ''OKEx'' 1568160000000)\<rparr>,
        \<lparr>replies = [Inr [sampleRate ''OKEx'' 1568131200000]],
         current = Inl AssertionError\<rparr>]"
      "[RequestError ''timeout'', AssertionError]"
      "\<lparr>replies = [Inr [sampleRate ''OKEx'' 1568102400000]],
        current = Inr (sampleRate ''OKEx'' 1568160000000)\<rparr>"
      "[sampleRate ''OKEx'' 1568102400000, sampleRate ''OKEx'' 1568160000000]" "[]"]
  by (simp add: sampleMarket_def sampleRate_def crawlFunc_def fundingRatesHistory_def
      startTime_def getTime_def crawlOKExFundingRate_def oneshot_def sortByTime_def
      JSON_stringify_def allFundingRates_def sortBy_def uniqBy_def)

section \<open>The crawl functions\<close>

lemma oneshot_swap: "market_type market = ''Swap'' \<Longrightarrow> oneshot market reply = reply"
  by (simp add: oneshot_def)

lemma cursorLoop_pages:
  assumes "market_type market = ''Swap''" and "0 < limit"
  shows "\<forall>p\<in>set ps. limit \<le> length p \<Longrightarrow> length p < limit \<Longrightarrow>
   cursorLoop limit step market (map Inr ps @ Inr p # rest) start result cursors =
     Some (Inr (result @ concat ps @ p),
           cursors @ start # map (\<lambda>pg. fundingTime (last pg) + step) ps)"
proof (induction ps arbitrary: start result cursors)
  case Nil
  then show ?case by (simp add: oneshot_swap [OF assms(1)])
next
  case (Cons q ps)
  from Cons.prems(1) assms(2) have q: "limit \<le> length q" "0 < length q" by auto
  have "\<forall>p\<in>set ps. limit \<le> length p" using Cons.prems(1) by simp
  note IH = Cons.IH [OF this Cons.prems(2)]
  show ?case
    using q by (simp add: oneshot_swap [OF assms(1)] IH getTime_def)
qed

lemma cursorLoop_full_pages:
  assumes "market_type market = ''Swap''"
  shows "\<forall>p\<in>set ps. limit \<le> length p \<Longrightarrow>
   cursorLoop limit step market (map Inr ps) start result cursors = None"
proof (induction ps arbitrary: start result cursors)
  case Nil
  then show ?case by simp
next
  case (Cons q ps)
  then show ?case by (simp add: oneshot_swap [OF assms(1)] Let_def)
qed

lemma sorted_sortByTime: "sorted (map fundingTime (sortByTime xs))"
  using sorted_sort_key [of fundingTime xs] by (simp add: sortByTime_def getTime_def)

lemma set_sortByTime: "set (sortByTime xs) = set xs"
  by (simp add: sortByTime_def)

lemma sorted_result_sorted:
  "sorted_result c = Some (Inr out, cs) \<Longrightarrow> sorted (map fundingTime out)"
  by (auto simp: sorted_result_def sorted_sortByTime split: option.splits sum.splits prod.splits)

lemma sorted_result_set:
  "sorted_result c = Some (Inr out, cs) \<Longrightarrow> \<exists>res. c = Some (Inr res, cs) \<and> set out = set res"
  by (auto simp: sorted_result_def set_sortByTime split: option.splits sum.splits prod.splits)

lemma huobiLoop_later:
  "huobiLoop market rs lastFundingTime pageIndex result cursors = Some (Inr out, cs) \<Longrightarrow>
   \<forall>r\<in>set result. lastFundingTime < fundingTime r \<Longrightarrow>
   \<forall>r\<in>set out. lastFundingTime < fundingTime r"
proof (induction rs arbitrary: pageIndex result cursors)
  case Nil
  then show ?case by simp
next
  case (Cons reply rs)
  show ?case
  proof (cases "oneshot market reply")
    case (Inl err)
    with Cons.prems show ?thesis by simp
  next
    case (Inr page)
    let ?new = "filter (\<lambda>rate. getTime (fundingTime rate) > lastFundingTime) page"
    have new: "\<forall>r\<in>set (result @ ?new). lastFundingTime < fundingTime r"
      using Cons.prems(2) by (auto simp: getTime_def)
    show ?thesis
    proof (cases "50 \<le> length ?new")
      case True
      then have "huobiLoop market rs lastFundingTime (pageIndex + 1) (result @ ?new)
                   (cursors @ [pageIndex]) = Some (Inr out, cs)"
        using Cons.prems(1) Inr by (auto simp: Let_def split: if_splits)
      from Cons.IH [OF this new] show ?thesis .
    next
      case False
      then have "out = (if 0 < length ?new then result @ ?new else result)"
        using Cons.prems(1) Inr by (simp add: Let_def)
      then show ?thesis using new Cons.prems(2) by (auto split: if_splits)
    qed
  qed
qed

lemma huobiLoop_pages:
  assumes "market_type market = ''Swap''"
  shows "\<forall>p\<in>set ps. 50 \<le> length (filter (\<lambda>rate. fundingTime rate > lastFundingTime) p) \<Longrightarrow>
   length (filter (\<lambda>rate. fundingTime rate > lastFundingTime) p) < 50 \<Longrightarrow>
   huobiLoop market (map Inr ps @ Inr p # rest) lastFundingTime pageIndex result cursors =
     Some (Inr (result @ concat (map (filter (\<lambda>rate. fundingTime rate > lastFundingTime)) (ps @ [p]))),
           cursors @ map (\<lambda>i. pageIndex + int i) [0..<length ps + 1])"
proof (induction ps arbitrary: pageIndex result cursors)
  case Nil
  then show ?case by (simp add: oneshot_swap [OF assms(1)] getTime_def Let_def)
next
  case (Cons q ps)
  let ?new = "filter (\<lambda>rate. fundingTime rate > lastFundingTime) q"
  from Cons.prems(1) have q: "50 \<le> length ?new" "0 < length ?new" by auto
  have "\<forall>p\<in>set ps. 50 \<le> length (filter (\<lambda>rate. fundingTime rate > lastFundingTime) p)"
    using Cons.prems(1) by simp
  note IH = Cons.IH [OF this Cons.prems(2)]
  have idx: "map (\<lambda>i. pageIndex + int i) [0..<length (q # ps) + 1] =
             pageIndex # map (\<lambda>i. pageIndex + 1 + int i) [0..<length ps + 1]"
    by (simp add: upt_rec [of 0] map_Suc_upt [symmetric] del: upt_Suc)
  show ?case
    using q unfolding idx by (simp add: oneshot_swap [OF assms(1)] IH getTime_def Let_def del: upt_Suc)
qed

lemma crawlOKEx_result:
  "crawlOKExFundingRate market n start = Some (Inr out, cs) \<Longrightarrow>
   sorted (map fundingTime out) \<and> (\<forall>r\<in>set out. start \<le> fundingTime r)"
  by (auto simp: crawlOKExFundingRate_def sorted_sortByTime set_sortByTime getTime_def
      split: list.splits sum.splits if_splits)

lemma crawlHuobi_result:
  assumes "crawlHuobiFundingRate market n start = Some (Inr out, cs)"
  shows "sorted (map fundingTime out) \<and> (\<forall>r\<in>set out. start < fundingTime r)"
proof -
  from assms have s: "sorted_result (huobiLoop market (replies n) start 1 [] []) = Some (Inr out, cs)"
    by (simp add: crawlHuobiFundingRate_def)
  from sorted_result_set [OF s] obtain res
    where res: "huobiLoop market (replies n) start 1 [] [] = Some (Inr res, cs)"
      and eq: "set out = set res" by blast
  from huobiLoop_later [OF res] have "\<forall>r\<in>set res. start < fundingTime r" by simp
  with eq sorted_result_sorted [OF s] show ?thesis by simp
qed

text \<open>
  Claim C6, as stated: for every exchange adapter and every start time, the output of
  one crawl holds only records with \<open>fundingTime \<ge> startTime\<close>, also when the
  exchange ignores the start parameter, and is sorted ascending. The first part fails
  for Binance and for BitMEX, whose crawl functions send the start time to the exchange
  and do not filter what comes back: asked from 5000, an exchange that replies with a
  record at 1000 gets that record into the output.
\<close>

theorem C6_unfiltered_counterexample:
  "crawlFunc ''Binance'' = Some crawlBinanceFundingRate \<and>
   crawlBinanceFundingRate (sampleMarket ''Binance'')
     \<lparr>replies = [Inr [sampleRate ''Binance'' 1000]], current = Inl (RequestError ''unused'')\<rparr> 5000
     = Some (Inr [sampleRate ''Binance'' 1000], [5000]) \<and>
   fundingTime (sampleRate ''Binance'' 1000) < 5000 \<and>
   crawlFunc ''BitMEX'' = Some crawlBitMEXFundingRate \<and>
   crawlBitMEXFundingRate (sampleMarket ''BitMEX'')
     \<lparr>replies = [Inr [sampleRate ''BitMEX'' 1000]], current = Inl (RequestError ''unused'')\<rparr> 5000
     = Some (Inr [sampleRate ''BitMEX'' 1000], [5000])"
  by (simp add: crawlFunc_def crawlBinanceFundingRate_def crawlBitMEXFundingRate_def
      sampleMarket_def sampleRate_def oneshot_def sorted_result_def sortByTime_def)

text \<open>
  Claim C6, amended: for every exchange adapter and every start time, the output of one
  crawl is sorted ascending by \<open>fundingTime\<close>; for the OKEx and the Huobi adapter it
  holds only records with \<open>fundingTime \<ge> startTime\<close>, whatever the exchange
  replies.
\<close>

theorem C6_sorted_and_filtered_where_filtering:
  assumes "crawlFunc ex = Some crawl"
    and "crawl market n start = Some (Inr out, cursors)"
  shows "sorted (map fundingTime out) \<and>
         (ex = ''OKEx'' \<or> ex = ''Huobi'' \<longrightarrow> (\<forall>r\<in>set out. start \<le> fundingTime r))"
proof -
  consider (binance) "ex = ''Binance''" "crawl = crawlBinanceFundingRate"
    | (bitmex) "ex = ''BitMEX''" "crawl = crawlBitMEXFundingRate"
    | (huobi) "ex = ''Huobi''" "crawl = crawlHuobiFundingRate"
    | (okex) "ex = ''OKEx''" "crawl = crawlOKExFundingRate"
    using assms(1) by (auto simp: crawlFunc_def split: if_splits)
  then show ?thesis
  proof cases
    case binance
    with assms(2) show ?thesis
      by (auto simp: crawlBinanceFundingRate_def dest: sorted_result_sorted)
  next
    case bitmex
    with assms(2) show ?thesis
      by (auto simp: crawlBitMEXFundingRate_def dest: sorted_result_sorted)
  next
    case huobi
    with assms(2) crawlHuobi_result [of market n start out cursors] show ?thesis
      by fastforce
  next
    case okex
    with assms(2) crawlOKEx_result [of market n start out cursors] show ?thesis
      by simp
  qed
qed

theorem C6_sorted_and_filtered_where_filtering_witness:
  "crawlOKExFundingRate (sampleMarket ''OKEx'')
     \<lparr>replies = [Inr [sampleRate ''OKEx'' 9000, sampleRate ''OKEx'' 1000]],
       current = Inr (sampleRate ''OKEx'' 7000)\<rparr> 5000
     = Some (Inr [sampleRate ''OKEx'' 7000, sampleRate ''OKEx'' 9000], []) \<and>
   sorted (map fundingTime [sampleRate ''OKEx'' 7000, sampleRate ''OKEx'' 9000]) \<and>
   5000 \<le> fundingTime (sampleRate ''OKEx'' 7000) \<and>
   5000 \<le> fundingTime (sampleRate ''OKEx'' 9000)"
proof -
  have f: "crawlFunc ''OKEx'' = Some crawlOKExFundingRate"
    by (simp add: crawlFunc_def)
  have run: "crawlOKExFundingRate (sampleMarket ''OKEx'')
     \<lparr>replies = [Inr [sampleRate ''OKEx'' 9000, sampleRate ''OKEx'' 1000]],
       current = Inr (sampleRate ''OKEx'' 7000)\<rparr> 5000
     = Some (Inr [sampleRate ''OKEx'' 7000, sampleRate ''OKEx'' 9000], [])"
    by (simp add: crawlOKExFundingRate_def sampleMarket_def sampleRate_def oneshot_def
        sortByTime_def getTime_def)
  from C6_sorted_and_filtered_where_filtering [OF f run] run show ?thesis by simp
qed

text \<open>
  Claim C7. Let the exchange answer a Binance crawl of a swap market with the pages
  \<open>ps\<close>, each of 1000 records (or more), and then with a page \<open>p\<close> of fewer than
  1000. Then the loop requests once per page of \<open>ps\<close> and once more, each request
  after the first from the last record's time of the page before plus 1000 ms; it
  returns after \<open>p\<close>, reading no later reply, with all the records sorted ascending
  by \<open>fundingTime\<close>. As long as only full pages have arrived it has not returned.
\<close>

theorem C7_binance_pagination:
  assumes "market_type market = ''Swap''"
    and "\<forall>p\<in>set ps. 1000 \<le> length p"
    and "length p < 1000"
  shows "crawlBinanceFundingRate market \<lparr>replies = map Inr ps @ Inr p # rest, current = c\<rparr> start =
           Some (Inr (sortByTime (concat ps @ p)),
                 start # map (\<lambda>pg. fundingTime (last pg) + 1000) ps) \<and>
         sorted (map fundingTime (sortByTime (concat ps @ p))) \<and>
         crawlBinanceFundingRate market \<lparr>replies = map Inr ps, current = c\<rparr> start = None"
  using cursorLoop_pages [OF assms(1) _ assms(2,3), of 1000 rest start "[]" "[]"]
    cursorLoop_full_pages [OF assms(1,2), of 1000 start "[]" "[]"]
  by (simp add: crawlBinanceFundingRate_def sorted_result_def sorted_sortByTime)

theorem C7_binance_pagination_witness:
  "crawlBinanceFundingRate (sampleMarket ''Binance'')
     \<lparr>replies = [Inr (replicate 1000 (sampleRate ''Binance'' 5000)),
                 Inr [sampleRate ''Binance'' 9000],
                 Inl (RequestError ''not requested'')],
       current = Inl (RequestError ''unused'')\<rparr> 0 =
     Some (Inr (sortByTime (replicate 1000 (sampleRate ''Binance'' 5000) @
                            [sampleRate ''Binance'' 9000])), [0, 6000])"
  using C7_binance_pagination [of "sampleMarket ''Binance''" "[replicate 1000 (sampleRate ''Binance'' 5000)]"
      "[sampleRate ''Binance'' 9000]" "[Inl (RequestError ''not requested'')]"
      "Inl (RequestError ''unused'')" 0]
  by (simp add: sampleMarket_def sampleRate_def)

text \<open>
  Claim C8. Whatever the exchange replies, the result of a Huobi crawl holds no record
  with \<open>fundingTime \<le> lastFundingTime\<close>: each page is filtered before it is pushed.
  And when the pages \<open>ps\<close> each keep 50 records or more after the filter and the
  next page \<open>p\<close> has fewer than 50 records, the loop requests the page indices
  \<open>1, 2, \<dots>\<close> one by one and returns after \<open>p\<close>, with the filtered pages sorted.
\<close>

theorem C8_huobi_filter_and_pagination:
  assumes "market_type market = ''Swap''"
    and "\<forall>p\<in>set ps. 50 \<le> length (filter (\<lambda>rate. fundingTime rate > lastFundingTime) p)"
    and "length p < 50"
  shows "crawlHuobiFundingRate market \<lparr>replies = map Inr ps @ Inr p # rest, current = c\<rparr>
           lastFundingTime =
           Some (Inr (sortByTime
                       (concat (map (filter (\<lambda>rate. fundingTime rate > lastFundingTime))
                                  (ps @ [p])))),
                 map (\<lambda>i. 1 + int i) [0..<length ps + 1]) \<and>
         (\<forall>n out cursors.
            crawlHuobiFundingRate market n lastFundingTime = Some (Inr out, cursors) \<longrightarrow>
            (\<forall>r\<in>set out. lastFundingTime < fundingTime r))"
proof -
  have short: "length (filter (\<lambda>rate. fundingTime rate > lastFundingTime) p) < 50"
    by (rule le_less_trans [OF length_filter_le assms(3)])
  show ?thesis
    using huobiLoop_pages [OF assms(1,2) short, of rest 1 "[]" "[]"] crawlHuobi_result
    by (auto simp: crawlHuobiFundingRate_def sorted_result_def simp del: upt_Suc)
qed

theorem C8_huobi_filter_and_pagination_witness:
  "crawlHuobiFundingRate (sampleMarket ''Huobi'')
     \<lparr>replies = [Inr (replicate 50 (sampleRate ''Huobi'' 9000)),
                 Inr [sampleRate ''Huobi'' 8000, sampleRate ''Huobi'' 5000,
                      sampleRate ''Huobi'' 1000],
                 Inl (RequestError ''not requested'')],
       current = Inl (RequestError ''unused'')\<rparr> 5000 =
     Some (Inr (sortByTime (replicate 50 (sampleRate ''Huobi'' 9000) @
                            [sampleRate ''Huobi'' 8000])), [1, 2])"
  using C8_huobi_filter_and_pagination [of "sampleMarket ''Huobi''" "[replicate 50 (sampleRate ''Huobi'' 9000)]" 5000
      "[sampleRate ''Huobi'' 8000, sampleRate ''Huobi'' 5000, sampleRate ''Huobi'' 1000]"
      "[Inl (RequestError ''not requested'')]" "Inl (RequestError ''unused'')"]
  by (simp add: sampleMarket_def sampleRate_def upt_rec [of 0] upt_rec [of 1] upt_rec [of "Suc 0"]
       del: upt_Suc)

end
